theory Spec2Isabelle
  imports Main "HOL-Library.Monad_Syntax"
begin

section \<open>The environment lookup of \<open>main.go\<close>\<close>

text \<open>
  The process environment is a finite table from variable names to values. Go's
  \<open>os.Getenv\<close> returns the empty string for a variable that is not present, so a
  caller cannot tell an unset variable from one set to the empty string.
\<close>

type_synonym environ = "string \<rightharpoonup> string"

definition Getenv :: "environ \<Rightarrow> string \<Rightarrow> string" where
  "Getenv environ key = (case environ key of None \<Rightarrow> [] | Some v \<Rightarrow> v)"

text \<open>
  \<^verbatim>\<open>
  func EnvOrDefault(env, fallback string) string {
      value := fallback
      if v := os.Getenv(env); v != "" {
          value = v
      }
      return value
  }
  \<close>
\<close>

definition EnvOrDefault :: "environ \<Rightarrow> string \<Rightarrow> string \<Rightarrow> string" where
  "EnvOrDefault environ env fallback =
     (let value = fallback;
          v = Getenv environ env
      in if v \<noteq> [] then v else value)"


section \<open>Requests and the response sink\<close>

text \<open>
  A Go \<open>error\<close> is observed by the handlers only through its message
  (\<open>err.Error()\<close>); \<open>nil\<close> is \<open>None\<close>. Functions that return a value together with
  an error return a pair, as in Go.
\<close>

type_synonym error = string

text \<open>
  What the server and the handlers read of a \<open>*http.Request\<close>: the method, the
  protocol version, the path and the raw query of the URL as \<open>net/http\<close> parsed them
  from the request line, the header table, and the outcome of
  \<open>ioutil.ReadAll(req.Body)\<close>. The request URI \<open>*\<close> is parsed to the path \<open>*\<close>, and no
  other request URI is, so \<open>r.RequestURI == "*"\<close> is \<open>Path r = ''*''\<close> here.
  \<open>req.Header\<close> is a Go map from a header name to the list of its values; the list
  here holds its entries in the order in which a \<open>range\<close> over the map visits them,
  which Go leaves unspecified, so a statement for every list covers every order.
\<close>

record Request =
  Method :: string
  ProtoMajor :: nat
  ProtoMinor :: nat
  Path :: string
  RawQuery :: string
  Header :: "(string \<times> string list) list"
  Body :: "string \<times> error option"

definition ProtoAtLeast :: "Request \<Rightarrow> nat \<Rightarrow> nat \<Rightarrow> bool" where
  "ProtoAtLeast r major minor \<longleftrightarrow>
     ProtoMajor r > major \<or> ProtoMajor r = major \<and> ProtoMinor r \<ge> minor"

text \<open>
  The \<open>http.ResponseWriter\<close>: the status line is fixed by the first \<open>WriteHeader\<close>, a
  \<open>Write\<close> before any \<open>WriteHeader\<close> sends status 200 first, and a handler that returns
  without either gets status 200 when the request is finished.
\<close>

record ResponseWriter =
  wroteHeader :: bool
  status :: nat
  header :: "string \<rightharpoonup> string"
  body :: string

abbreviation StatusOK :: nat where "StatusOK \<equiv> 200"
abbreviation StatusMovedPermanently :: nat where "StatusMovedPermanently \<equiv> 301"
abbreviation StatusSeeOther :: nat where "StatusSeeOther \<equiv> 303"
abbreviation StatusBadRequest :: nat where "StatusBadRequest \<equiv> 400"
abbreviation StatusNotFound :: nat where "StatusNotFound \<equiv> 404"
abbreviation StatusInternalServerError :: nat where "StatusInternalServerError \<equiv> 500"

definition NewResponseWriter :: ResponseWriter where
  "NewResponseWriter = \<lparr>wroteHeader = False, status = 0, header = Map.empty, body = []\<rparr>"

definition WriteHeader :: "ResponseWriter \<Rightarrow> nat \<Rightarrow> ResponseWriter" where
  "WriteHeader w code = (if wroteHeader w then w else w\<lparr>wroteHeader := True, status := code\<rparr>)"

definition Write :: "ResponseWriter \<Rightarrow> string \<Rightarrow> ResponseWriter" where
  "Write w bs =
     (let w' = (if wroteHeader w then w else WriteHeader w StatusOK)
      in w'\<lparr>body := body w' @ bs\<rparr>)"

definition finishRequest :: "ResponseWriter \<Rightarrow> ResponseWriter" where
  "finishRequest w = (if wroteHeader w then w else WriteHeader w StatusOK)"

section \<open>Formatted output\<close>

abbreviation newline :: string where "newline \<equiv> [CHR 0x0A]"

text \<open>
  \<open>fmt.Fprintf\<close> scans its format: text up to a \<open>%\<close> is copied, and a \<open>%\<close> starts a
  directive. The fragment of package \<open>fmt\<close> embedded here is the one the handlers use,
  with string operands only:
  \<^item> \<open>%%\<close> prints a percent sign and takes no operand;
  \<^item> \<open>%s\<close> prints the next operand as it is;
  \<^item> a format that ends in a lone \<open>%\<close> prints \<open>%!(NOVERB)\<close>;
  \<^item> a verb with no operand left prints \<open>%!\<close>, the verb and \<open>(MISSING)\<close>.
  A directive with a flag, an operand index, a width or a precision, a verb outside
  ASCII, a verb other than \<open>s\<close> applied to an operand, and operands left over at the end
  are outside the fragment: the result is \<open>None\<close> there.
\<close>

definition directive_syntax :: "char \<Rightarrow> bool" where
  "directive_syntax c \<longleftrightarrow> c \<in> set ''#0+- [*.123456789'' \<or> 128 \<le> (of_char c :: nat)"

fun doPrintf :: "string \<Rightarrow> string list \<Rightarrow> string option" where
  "doPrintf [] [] = Some []"
| "doPrintf [] (a # as) = None"
| "doPrintf (c # format) as =
     (if c \<noteq> CHR ''%'' then map_option ((#) c) (doPrintf format as)
      else (case format of
              [] \<Rightarrow> Some ''%!(NOVERB)''
            | verb # rest \<Rightarrow>
                if verb = CHR ''%'' then map_option ((#) CHR ''%'') (doPrintf rest as)
                else if directive_syntax verb then None
                else (case as of
                        [] \<Rightarrow> map_option ((@) (''%!'' @ [verb] @ ''(MISSING)'')) (doPrintf rest [])
                      | a # as' \<Rightarrow>
                          if verb = CHR ''s'' then map_option ((@) a) (doPrintf rest as')
                          else None)))"

text \<open>
  Package \<open>fmt\<close> prints something for every format and all operands. What it prints
  outside the fragment is a parameter of the model, a function of the format and the
  operands; every statement below holds whatever that function is.
\<close>

type_synonym formatter = "string \<Rightarrow> string list \<Rightarrow> string"

definition Sprintf :: "formatter \<Rightarrow> string \<Rightarrow> string list \<Rightarrow> string" where
  "Sprintf other format as =
     (case doPrintf format as of Some s \<Rightarrow> s | None \<Rightarrow> other format as)"

text \<open>Each call formats into a buffer and hands it to the writer in one \<open>Write\<close>.\<close>

definition Fprintf :: "formatter \<Rightarrow> ResponseWriter \<Rightarrow> string \<Rightarrow> string list \<Rightarrow> ResponseWriter" where
  "Fprintf other w format as = Write w (Sprintf other format as)"

definition Fprint :: "ResponseWriter \<Rightarrow> string \<Rightarrow> ResponseWriter" where
  "Fprint w a = Write w a"

definition Fprintln :: "ResponseWriter \<Rightarrow> string \<Rightarrow> ResponseWriter" where
  "Fprintln w a = Write w (a @ newline)"

section \<open>What a handler acts on besides the response\<close>

text \<open>
  A handler may call the storage backend, call the cluster, and log. The state of the
  backend and of the cluster are opaque (type parameters); \<open>logged\<close> collects the
  messages handed to the standard logger, as formatted by the handler.
\<close>

record ('s, 'k) world =
  storage :: 's
  cluster :: 'k
  logged :: "string list"

type_synonym ('s, 'k) HandlerFunc =
  "ResponseWriter \<Rightarrow> Request \<Rightarrow> ('s, 'k) world \<Rightarrow> ResponseWriter \<times> ('s, 'k) world"

definition log_Printf :: "formatter \<Rightarrow> string \<Rightarrow> string list \<Rightarrow> ('s, 'k) world \<Rightarrow> ('s, 'k) world" where
  "log_Printf other format as wld = wld\<lparr>logged := logged wld @ [Sprintf other format as]\<rparr>"

definition log_Println :: "string \<Rightarrow> ('s, 'k) world \<Rightarrow> ('s, 'k) world" where
  "log_Println a wld = wld\<lparr>logged := logged wld @ [a @ newline]\<rparr>"

section \<open>URLs and paths\<close>

text \<open>
  \<open>path.Clean\<close> works on the elements of a path, which slashes separate: an empty
  element and a \<open>.\<close> element are dropped; a \<open>..\<close> element removes the element before
  it, is dropped at the root of a rooted path, and is kept at the start of a path that
  is not rooted. The empty result is \<open>.\<close>.
\<close>

fun split_slash :: "string \<Rightarrow> string list" where
  "split_slash [] = [[]]"
| "split_slash (c # cs) =
     (if c = CHR ''/'' then [] # split_slash cs
      else (case split_slash cs of [] \<Rightarrow> [[c]] | e # es \<Rightarrow> (c # e) # es))"

fun join_slash :: "string list \<Rightarrow> string" where
  "join_slash [] = []"
| "join_slash [e] = e"
| "join_slash (e # es) = e @ ''/'' @ join_slash es"

text \<open>\<open>out\<close> holds the elements written so far, the last one first.\<close>

fun clean_elements :: "bool \<Rightarrow> string list \<Rightarrow> string list \<Rightarrow> string list" where
  "clean_elements rooted out [] = rev out"
| "clean_elements rooted out (e # es) =
     (if e = [] \<or> e = ''.'' then clean_elements rooted out es
      else if e = ''..'' then
        (if out \<noteq> [] \<and> hd out \<noteq> ''..'' then clean_elements rooted (tl out) es
         else if \<not> rooted then clean_elements rooted (e # out) es
         else clean_elements rooted out es)
      else clean_elements rooted (e # out) es)"

definition Clean :: "string \<Rightarrow> string" where
  "Clean path =
     (if path = [] then ''.''
      else let rooted = (hd path = CHR ''/'');
               out = (if rooted then ''/'' else []) @ join_slash (clean_elements rooted [] (split_slash path))
           in if out = [] then ''.'' else out)"

definition HasPrefix :: "string \<Rightarrow> string \<Rightarrow> bool" where
  "HasPrefix s pre \<longleftrightarrow> take (length pre) s = pre"

text \<open>
  \<^verbatim>\<open>
  func cleanPath(p string) string {
      if p == "" {
          return "/"
      }
      if p[0] != '/' {
          p = "/" + p
      }
      np := path.Clean(p)
      // path.Clean removes trailing slash except for root;
      // put the trailing slash back if necessary.
      if p[len(p)-1] == '/' && np != "/" {
          // Fast path for common case of p being the string we want:
          if len(p) == len(np)+1 && strings.HasPrefix(p, np) {
              np = p
          } else {
              np += "/"
          }
      }
      return np
  }
  \<close>
\<close>

definition cleanPath :: "string \<Rightarrow> string" where
  "cleanPath p0 =
     (if p0 = [] then ''/''
      else let p = (if hd p0 \<noteq> CHR ''/'' then ''/'' @ p0 else p0);
               np = Clean p
           in if last p = CHR ''/'' \<and> np \<noteq> ''/''
              then (if length p = length np + 1 \<and> HasPrefix p np then p else np @ ''/'')
              else np)"

text \<open>
  \<open>URL.String\<close> for a URL that has a path and a raw query only. In a path, letters,
  digits and the characters \<open>-_.~$&+,/:;=@\<close> stand for themselves, and every other byte
  is written as \<open>%\<close> and two upper-case hexadecimal digits. A first element with a
  colon gets \<open>./\<close> before it.
\<close>

definition shouldEscape :: "char \<Rightarrow> bool" where
  "shouldEscape c \<longleftrightarrow>
     \<not> (c \<in> set ''abcdefghijklmnopqrstuvwxyz'' \<or> c \<in> set ''ABCDEFGHIJKLMNOPQRSTUVWXYZ''
        \<or> c \<in> set ''0123456789'' \<or> c \<in> set ''-_.~'' \<or> c \<in> set ''$&+,/:;=@'')"

definition escape_byte :: "string \<Rightarrow> char \<Rightarrow> string" where
  "escape_byte digits c =
     [CHR ''%'', digits ! (of_char c div 16), digits ! (of_char c mod 16)]"

definition EscapedPath :: "string \<Rightarrow> string" where
  "EscapedPath path =
     (if path = ''*'' then ''*''
      else concat (map (\<lambda>c. if shouldEscape c then escape_byte ''0123456789ABCDEF'' c else [c]) path))"

definition URL_String :: "string \<Rightarrow> string \<Rightarrow> string" where
  "URL_String path rawquery =
     (let p = EscapedPath path
      in (if CHR '':'' \<in> set (takeWhile (\<lambda>c. c \<noteq> CHR ''/'') p) then ''./'' else [])
         @ p @ (if rawquery \<noteq> [] then ''?'' @ rawquery else []))"

section \<open>Library handlers of \<open>net/http\<close>\<close>

text \<open>
  \<open>http.Redirect\<close> for a target that begins with a slash and whose path is clean, as
  in both of its uses here (\<open>/ping\<close>, and the canonical path that the route table
  redirects to): the function's own cleaning of the target changes nothing then. The
  \<open>Location\<close> header is the target with every byte outside ASCII written as \<open>%\<close> and
  two lower-case hexadecimal digits. A short HTML body is written for a \<open>GET\<close>, unless
  a content type was set before. \<open>StatusText\<close> lists the redirect codes.
\<close>

definition StatusText :: "nat \<Rightarrow> string" where
  "StatusText code =
     (if code = 301 then ''Moved Permanently''
      else if code = 302 then ''Found''
      else if code = 303 then ''See Other''
      else if code = 307 then ''Temporary Redirect''
      else if code = 308 then ''Permanent Redirect''
      else [])"

definition hexEscapeNonASCII :: "string \<Rightarrow> string" where
  "hexEscapeNonASCII s =
     concat (map (\<lambda>c. if 128 \<le> (of_char c :: nat) then escape_byte ''0123456789abcdef'' c else [c]) s)"

definition htmlEscape :: "string \<Rightarrow> string" where
  "htmlEscape s =
     concat (map (\<lambda>c. if c = CHR ''&'' then ''&amp;''
                       else if c = CHR ''<'' then ''&lt;''
                       else if c = CHR ''>'' then ''&gt;''
                       else if c = CHR 0x22 then ''&#34;''
                       else if c = CHR 0x27 then ''&#39;''
                       else [c]) s)"

definition Redirect :: "ResponseWriter \<Rightarrow> Request \<Rightarrow> string \<Rightarrow> nat \<Rightarrow> ResponseWriter" where
  "Redirect w r url code =
     (let hadCT = (header w ''Content-Type'' \<noteq> None);
          w1 = w\<lparr>header := (header w)(''Location'' \<mapsto> hexEscapeNonASCII url)\<rparr>;
          w2 = (if \<not> hadCT \<and> (Method r = ''GET'' \<or> Method r = ''HEAD'')
                then w1\<lparr>header := (header w1)(''Content-Type'' \<mapsto> ''text/html; charset=utf-8'')\<rparr>
                else w1);
          w3 = WriteHeader w2 code
      in if \<not> hadCT \<and> Method r = ''GET''
         then Fprintln w3 (''<a href='' @ [CHR 0x22] @ htmlEscape url @ [CHR 0x22] @ ''>''
                            @ StatusText code @ ''</a>.'' @ newline)
         else w3)"

definition RedirectHandler :: "string \<Rightarrow> nat \<Rightarrow> ('s, 'k) HandlerFunc" where
  "RedirectHandler url code w r wld = (Redirect w r url code, wld)"

text \<open>\<open>http.NotFound\<close> is \<open>http.Error\<close> with the fixed text and status 404.\<close>

definition Error :: "ResponseWriter \<Rightarrow> string \<Rightarrow> nat \<Rightarrow> ResponseWriter" where
  "Error w err code =
     (let w1 = w\<lparr>header := (header w)(''Content-Type'' \<mapsto> ''text/plain; charset=utf-8'')\<rparr>;
          w2 = w1\<lparr>header := (header w1)(''X-Content-Type-Options'' \<mapsto> ''nosniff'')\<rparr>
      in Fprintln (WriteHeader w2 code) err)"

definition NotFound :: "('s, 'k) HandlerFunc" where
  "NotFound w r wld = (Error w ''404 page not found'' StatusNotFound, wld)"

section \<open>The route table\<close>

text \<open>
  \<open>http.ServeMux\<close> keeps the registered patterns in a map, and those that end in a
  slash also in a list ordered from the longest to the shortest. A pattern without a
  trailing slash names one path; a pattern with one names the whole subtree below it,
  so \<open>/\<close> names every rooted path. Registration panics (\<open>None\<close>) on an empty pattern
  and on a pattern registered twice. The library tries every lookup with the host
  before the path as well; every pattern of \<open>main\<close> begins with a slash and no host
  does, so those lookups find nothing and the table is used by path alone here.
\<close>

record 'h ServeMux =
  mux_m :: "string \<rightharpoonup> 'h"
  mux_es :: "(string \<times> 'h) list"

definition NewServeMux :: "'h ServeMux" where
  "NewServeMux = \<lparr>mux_m = Map.empty, mux_es = []\<rparr>"

fun appendSorted :: "(string \<times> 'h) list \<Rightarrow> string \<times> 'h \<Rightarrow> (string \<times> 'h) list" where
  "appendSorted [] e = [e]"
| "appendSorted (x # xs) e =
     (if length (fst x) < length (fst e) then e # x # xs else x # appendSorted xs e)"

definition HandleFunc :: "'h ServeMux \<Rightarrow> string \<Rightarrow> 'h \<Rightarrow> 'h ServeMux option" where
  "HandleFunc mux pattern handler =
     (if pattern = [] then None
      else if mux_m mux pattern \<noteq> None then None
      else Some \<lparr>mux_m = (mux_m mux)(pattern \<mapsto> handler),
                 mux_es = (if last pattern = CHR ''/''
                           then appendSorted (mux_es mux) (pattern, handler)
                           else mux_es mux)\<rparr>)"

text \<open>The lookup: an exact match first, then the longest subtree pattern.\<close>

definition mux_match :: "'h ServeMux \<Rightarrow> string \<Rightarrow> 'h option" where
  "mux_match mux path =
     (case mux_m mux path of
        Some h \<Rightarrow> Some h
      | None \<Rightarrow> map_option snd (find (\<lambda>e. HasPrefix path (fst e)) (mux_es mux)))"

definition mux_handler :: "('s, 'k) HandlerFunc ServeMux \<Rightarrow> string \<Rightarrow> ('s, 'k) HandlerFunc" where
  "mux_handler mux path = (case mux_match mux path of Some h \<Rightarrow> h | None \<Rightarrow> NotFound)"

text \<open>
  A path that is not registered while the path with a slash added is, is redirected
  to the latter.
  \<^verbatim>\<open>
  func (mux *ServeMux) shouldRedirectRLocked(host, path string) bool {
      p := []string{path, host + path}
      for _, c := range p {
          if _, exist := mux.m[c]; exist {
              return false
          }
      }
      n := len(path)
      if n == 0 {
          return false
      }
      for _, c := range p {
          if _, exist := mux.m[c+"/"]; exist {
              return path[n-1] != '/'
          }
      }
      return false
  }
  \<close>
\<close>

definition shouldRedirect :: "'h ServeMux \<Rightarrow> string \<Rightarrow> bool" where
  "shouldRedirect mux path =
     (if mux_m mux path \<noteq> None then False
      else if length path = 0 then False
      else if mux_m mux (path @ ''/'') \<noteq> None then last path \<noteq> CHR ''/''
      else False)"

text \<open>
  The table answers a request whose path is not canonical with a redirect (301) to
  the canonical path, and looks up a path that is canonical. The path of a \<open>CONNECT\<close>
  is looked up as it is.
  \<^verbatim>\<open>
  func (mux *ServeMux) Handler(r *Request) (h Handler, pattern string) {
      // CONNECT requests are not canonicalized.
      if r.Method == "CONNECT" {
          if u, ok := mux.redirectToPathSlash(r.URL.Host, r.URL.Path, r.URL); ok {
              return RedirectHandler(u.String(), StatusMovedPermanently), u.Path
          }
          return mux.handler(r.Host, r.URL.Path)
      }
      host := stripHostPort(r.Host)
      path := cleanPath(r.URL.Path)
      if u, ok := mux.redirectToPathSlash(host, path, r.URL); ok {
          return RedirectHandler(u.String(), StatusMovedPermanently), u.Path
      }
      if path != r.URL.Path {
          _, pattern = mux.handler(host, path)
          u := &url.URL{Path: path, RawQuery: r.URL.RawQuery}
          return RedirectHandler(u.String(), StatusMovedPermanently), pattern
      }
      return mux.handler(host, r.URL.Path)
  }
  \<close>
\<close>

definition mux_Handler :: "('s, 'k) HandlerFunc ServeMux \<Rightarrow> Request \<Rightarrow> ('s, 'k) HandlerFunc" where
  "mux_Handler mux r =
     (if Method r = ''CONNECT'' then
        (if shouldRedirect mux (Path r)
         then RedirectHandler (URL_String (Path r @ ''/'') (RawQuery r)) StatusMovedPermanently
         else mux_handler mux (Path r))
      else
        (let path = cleanPath (Path r)
         in if shouldRedirect mux path
            then RedirectHandler (URL_String (path @ ''/'') (RawQuery r)) StatusMovedPermanently
            else if path \<noteq> Path r
            then RedirectHandler (URL_String path (RawQuery r)) StatusMovedPermanently
            else mux_handler mux (Path r)))"

text \<open>
  \<^verbatim>\<open>
  func (mux *ServeMux) ServeHTTP(w ResponseWriter, r *Request) {
      if r.RequestURI == "*" {
          if r.ProtoAtLeast(1, 1) {
              w.Header().Set("Connection", "close")
          }
          w.WriteHeader(StatusBadRequest)
          return
      }
      h, _ := mux.Handler(r)
      h.ServeHTTP(w, r)
  }
  \<close>
\<close>

definition ServeHTTP :: "('s, 'k) HandlerFunc ServeMux \<Rightarrow> ('s, 'k) HandlerFunc" where
  "ServeHTTP mux w r wld =
     (if Path r = ''*''
      then (WriteHeader (if ProtoAtLeast r 1 1
                         then w\<lparr>header := (header w)(''Connection'' \<mapsto> ''close'')\<rparr>
                         else w) StatusBadRequest, wld)
      else mux_Handler mux r w r wld)"

section \<open>The handlers of \<open>main.go\<close>\<close>

definition Name :: string where
  "Name = ''divman'' @ [CHR 0x27] @ ''s GoServer''"

definition Version :: string where
  "Version = ''1.0.0''"

text \<open>
  \<^verbatim>\<open>
  func RootHandler(resp http.ResponseWriter, req *http.Request) {
      http.Redirect(resp, req, "/ping", http.StatusSeeOther)
  }
  \<close>
\<close>

definition RootHandler :: "('s, 'k) HandlerFunc" where
  "RootHandler resp req wld = (Redirect resp req ''/ping'' StatusSeeOther, wld)"

text \<open>
  The storage capability is the interface \<open>Storage\<close> with the one method \<open>Ping\<close>,
  declared outside \<open>main.go\<close>: it is a parameter here, a function from the backend's
  state to the pair that \<open>Ping\<close> returns and the backend's next state.
  \<^verbatim>\<open>
  func PingHandler(s Storage) http.HandlerFunc {
      return func(resp http.ResponseWriter, req *http.Request) {
          res, err := s.Ping()
          if err != nil {
              resp.WriteHeader(http.StatusInternalServerError)
              fmt.Fprintf(resp, err.Error())
              return
          }
          resp.WriteHeader(http.StatusOK)
          fmt.Fprintln(resp, res)
      }
  }
  \<close>
  The error branch passes the message to \<open>Fprintf\<close> as the format.
\<close>

type_synonym 's Storage = "'s \<Rightarrow> (string \<times> error option) \<times> 's"

definition PingHandler :: "formatter \<Rightarrow> 's Storage \<Rightarrow> ('s, 'k) HandlerFunc" where
  "PingHandler other Ping resp req wld =
     (case Ping (storage wld) of
        ((res, err), st) \<Rightarrow>
          (let wld = wld\<lparr>storage := st\<rparr>
           in case err of
                Some e \<Rightarrow> (Fprintf other (WriteHeader resp StatusInternalServerError) e [], wld)
              | None \<Rightarrow> (Fprintln (WriteHeader resp StatusOK) res, wld)))"

text \<open>
  \<^verbatim>\<open>
  func VersionHandler(resp http.ResponseWriter, req *http.Request) {
      resp.WriteHeader(http.StatusOK)
      fmt.Fprintf(resp, "%s v%s\n", Name, Version)
  }
  \<close>
\<close>

definition VersionHandler :: "formatter \<Rightarrow> ('s, 'k) HandlerFunc" where
  "VersionHandler other resp req wld =
     (Fprintf other (WriteHeader resp StatusOK) (''%s v%s'' @ newline) [Name, Version], wld)"

text \<open>
  \<^verbatim>\<open>
  func PayloadHandler(resp http.ResponseWriter, req *http.Request) {
      body, err := ioutil.ReadAll(req.Body)
      if err != nil {
          resp.WriteHeader(http.StatusInternalServerError)
          return
      }
      resp.WriteHeader(http.StatusOK)
      log.Printf("Method: %s\n", req.Method)
      fmt.Fprintf(resp, "Method: %s\n", req.Method)
      if len(req.Header) > 0 {
          log.Println("Headers:")
          fmt.Fprint(resp, "Headers:\n")
          for key, values := range req.Header {
              for _, val := range values {
                  log.Printf("%s: %s\n", key, val)
                  fmt.Fprintf(resp, "%s: %s\n", key, val)
              }
          }
      }
      log.Printf("Payload: %s", string(body))
      fmt.Fprintf(resp, "Payload: %s", string(body))
  }
  \<close>
  The two loops are the two recursive functions below; \<open>payload\<close> is the source's
  variable \<open>body\<close>.
\<close>

fun range_values ::
  "formatter \<Rightarrow> string \<Rightarrow> string list \<Rightarrow> ResponseWriter \<Rightarrow> ('s, 'k) world \<Rightarrow> ResponseWriter \<times> ('s, 'k) world"
where
  "range_values other key [] resp wld = (resp, wld)"
| "range_values other key (val # values) resp wld =
     (let wld = log_Printf other (''%s: %s'' @ newline) [key, val] wld;
          resp = Fprintf other resp (''%s: %s'' @ newline) [key, val]
      in range_values other key values resp wld)"

fun range_Header ::
  "formatter \<Rightarrow> (string \<times> string list) list \<Rightarrow> ResponseWriter \<Rightarrow> ('s, 'k) world \<Rightarrow> ResponseWriter \<times> ('s, 'k) world"
where
  "range_Header other [] resp wld = (resp, wld)"
| "range_Header other ((key, values) # hdr) resp wld =
     (case range_values other key values resp wld of
        (resp, wld) \<Rightarrow> range_Header other hdr resp wld)"

definition PayloadHandler :: "formatter \<Rightarrow> ('s, 'k) HandlerFunc" where
  "PayloadHandler other resp req wld =
     (case Body req of
        (payload, Some err) \<Rightarrow> (WriteHeader resp StatusInternalServerError, wld)
      | (payload, None) \<Rightarrow>
          (let resp = WriteHeader resp StatusOK;
               wld = log_Printf other (''Method: %s'' @ newline) [Method req] wld;
               resp = Fprintf other resp (''Method: %s'' @ newline) [Method req];
               (resp, wld) =
                 (if length (Header req) > 0
                  then range_Header other (Header req)
                         (Fprint resp (''Headers:'' @ newline)) (log_Println ''Headers:'' wld)
                  else (resp, wld));
               wld = log_Printf other ''Payload: %s'' [payload] wld;
               resp = Fprintf other resp ''Payload: %s'' [payload]
           in (resp, wld)))"

text \<open>
  \<open>CreatePod\<close> is defined outside \<open>main.go\<close>; the specification calls its result an
  opaque text. It is a parameter here: a function from the cluster's state to the text
  it returns (what \<open>%s\<close> prints of its result) and the cluster's next state.
  \<^verbatim>\<open>
  func KubernetesCreateHandler(resp http.ResponseWriter, req *http.Request) {
      _, err := ioutil.ReadAll(req.Body)
      if err != nil {
          resp.WriteHeader(http.StatusInternalServerError)
          return
      }
      var pods = CreatePod()
      fmt.Fprintf(resp, "Pods: %s", pods)
  }
  \<close>
\<close>

type_synonym 'k PodCreator = "'k \<Rightarrow> string \<times> 'k"

definition KubernetesCreateHandler :: "formatter \<Rightarrow> 'k PodCreator \<Rightarrow> ('s, 'k) HandlerFunc" where
  "KubernetesCreateHandler other CreatePod resp req wld =
     (case Body req of
        (_, Some err) \<Rightarrow> (WriteHeader resp StatusInternalServerError, wld)
      | (_, None) \<Rightarrow>
          (case CreatePod (cluster wld) of
             (pods, k) \<Rightarrow> (Fprintf other resp ''Pods: %s'' [pods], wld\<lparr>cluster := k\<rparr>)))"

section \<open>The server that \<open>main\<close> sets up\<close>

text \<open>
  \<^verbatim>\<open>
  s := http.NewServeMux()
  s.HandleFunc("/", RootHandler)
  s.HandleFunc("/ping", PingHandler(r))
  s.HandleFunc("/version", VersionHandler)
  s.HandleFunc("/payload", PayloadHandler)
  s.HandleFunc("/kubecreate", KubernetesCreateHandler)
  \<close>
\<close>

definition main_mux ::
  "formatter \<Rightarrow> 's Storage \<Rightarrow> 'k PodCreator \<Rightarrow> ('s, 'k) HandlerFunc ServeMux option"
where
  "main_mux other r CreatePod =
     do {
       s \<leftarrow> Some NewServeMux;
       s \<leftarrow> HandleFunc s ''/'' RootHandler;
       s \<leftarrow> HandleFunc s ''/ping'' (PingHandler other r);
       s \<leftarrow> HandleFunc s ''/version'' (VersionHandler other);
       s \<leftarrow> HandleFunc s ''/payload'' (PayloadHandler other);
       s \<leftarrow> HandleFunc s ''/kubecreate'' (KubernetesCreateHandler other CreatePod);
       Some s
     }"

text \<open>
  \<open>http.ListenAndServe\<close> hands every request to the handler it was given, except
  \<open>OPTIONS *\<close>, which the server answers itself with an empty 200:
  \<^verbatim>\<open>
  handler := sh.srv.Handler
  if req.RequestURI == "*" && req.Method == "OPTIONS" {
      handler = globalOptionsHandler{}
  }
  handler.ServeHTTP(rw, req)
  \<close>
\<close>

definition globalOptionsHandler :: "('s, 'k) HandlerFunc" where
  "globalOptionsHandler w r wld = (w\<lparr>header := (header w)(''Content-Length'' \<mapsto> ''0'')\<rparr>, wld)"

definition serverHandler :: "('s, 'k) HandlerFunc \<Rightarrow> ('s, 'k) HandlerFunc" where
  "serverHandler handler w r wld =
     (if Path r = ''*'' \<and> Method r = ''OPTIONS'' then globalOptionsHandler w r wld
      else handler w r wld)"

text \<open>
  One request served: the handler runs on a fresh response, and the request is
  finished. The logging wrapper around the route table only observes and is left out.
\<close>

definition finished :: "ResponseWriter \<times> 'w \<Rightarrow> ResponseWriter \<times> 'w" where
  "finished out = (case out of (resp, wld) \<Rightarrow> (finishRequest resp, wld))"

definition serve ::
  "formatter \<Rightarrow> 's Storage \<Rightarrow> 'k PodCreator \<Rightarrow> Request \<Rightarrow> ('s, 'k) world
     \<Rightarrow> (ResponseWriter \<times> ('s, 'k) world) option"
where
  "serve other r CreatePod req wld =
     do {
       s \<leftarrow> main_mux other r CreatePod;
       Some (finished (serverHandler (ServeHTTP s) NewResponseWriter req wld))
     }"

section \<open>Observing a response\<close>

text \<open>
  What a client sees of a served request: the status with the body, and the
  \<open>Location\<close> header.
\<close>

definition reply :: "(ResponseWriter \<times> 'w) option \<Rightarrow> (nat \<times> string) option" where
  "reply out = map_option (\<lambda>(w, _). (status w, body w)) out"

definition location :: "(ResponseWriter \<times> 'w) option \<Rightarrow> string option" where
  "location out = out \<bind> (\<lambda>(w, _). header w ''Location'')"

text \<open>
  The dump of the headers as the specification words it: one line per value of every
  header, the values of one header in their order.
\<close>

definition header_values :: "(string \<times> string list) list \<Rightarrow> (string \<times> string) list" where
  "header_values hdr = concat (map (\<lambda>(key, values). map (Pair key) values) hdr)"

definition header_line :: "string \<times> string \<Rightarrow> string" where
  "header_line kv = fst kv @ '': '' @ snd kv @ newline"

section \<open>Sample backends and requests\<close>

text \<open>
  The closed examples below need a formatter. Only one of them leaves the fragment,
  with the format \<open>50% done\<close> and no operand, where \<open>fmt\<close> reads a space flag and the
  verb \<open>d\<close>; nothing else of \<open>sample_format\<close> is used.
\<close>

definition sample_format :: formatter where
  "sample_format format as =
     (if format = ''50% done'' \<and> as = [] then ''50%!d(MISSING)one'' else [])"

definition PONG :: "unit Storage" where
  "PONG st = ((''PONG'', None), st)"

definition refusing :: "unit Storage" where
  "refusing st = (([], Some ''connection refused''), st)"

definition zone_refusing :: "unit Storage" where
  "zone_refusing st =
     (([], Some ''dial tcp [fe80::1%eth0]:6379: connect: connection refused''), st)"

definition half_done :: "unit Storage" where
  "half_done st = (([], Some ''50% done''), st)"

definition counting_CreatePod :: "nat PodCreator" where
  "counting_CreatePod n = (''created'', Suc n)"

definition idle :: "(unit, nat) world" where
  "idle = \<lparr>storage = (), cluster = 0, logged = []\<rparr>"

definition GET :: "string \<Rightarrow> Request" where
  "GET p = \<lparr>Method = ''GET'', ProtoMajor = 1, ProtoMinor = 1, Path = p, RawQuery = [],
            Header = [], Body = ([], None)\<rparr>"


definition POST_hello :: "string \<Rightarrow> Request" where
  "POST_hello p = \<lparr>Method = ''POST'', ProtoMajor = 1, ProtoMinor = 1, Path = p, RawQuery = [],
                   Header = [(''X-Test'', [''a'', ''b''])], Body = (''hello'', None)\<rparr>"

definition broken_read :: "string \<Rightarrow> Request" where
  "broken_read p = \<lparr>Method = ''POST'', ProtoMajor = 1, ProtoMinor = 1, Path = p, RawQuery = [],
                    Header = [(''Content-Length'', [''5''])],
                    Body = (''he'', Some ''unexpected EOF'')\<rparr>"

section \<open>Properties\<close>

subsection \<open>Formatting with the constant formats\<close>

lemma directive_syntax_s [simp]: "\<not> directive_syntax CHR ''s''"
  by (simp add: directive_syntax_def)

lemma doPrintf_plain: "CHR ''%'' \<notin> set s \<Longrightarrow> doPrintf s [] = Some s"
  by (induction s) auto

lemma Version_format:
  "Sprintf other (''%s v%s'' @ newline) [Name, Version] = Name @ '' v'' @ Version @ newline"
  by (simp add: Sprintf_def)

lemma Method_format: "Sprintf other (''Method: %s'' @ newline) [m] = ''Method: '' @ m @ newline"
  by (simp add: Sprintf_def)

lemma header_line_format:
  "Sprintf other (''%s: %s'' @ newline) [key, val] = header_line (key, val)"
  by (simp add: Sprintf_def header_line_def)

lemma Payload_format: "Sprintf other ''Payload: %s'' [payload] = ''Payload: '' @ payload"
  by (simp add: Sprintf_def)

lemma Pods_format: "Sprintf other ''Pods: %s'' [pods] = ''Pods: '' @ pods"
  by (simp add: Sprintf_def)

subsection \<open>Canonical paths\<close>



lemma cleanPath_routes:
  "cleanPath ''/ping'' = ''/ping''" "cleanPath ''/version'' = ''/version''"
  "cleanPath ''/payload'' = ''/payload''" "cleanPath ''/kubecreate'' = ''/kubecreate''"
  "cleanPath ''/'' = ''/''"
  by (simp_all add: cleanPath_def Clean_def)

subsection \<open>The route table of \<open>main\<close>\<close>

text \<open>
  The five registrations succeed. Only \<open>/\<close> ends in a slash, so it is the only subtree
  pattern, and no path is redirected to itself with a slash added.
\<close>

lemma main_mux_table:
  "main_mux other r CreatePod =
     Some \<lparr>mux_m = [''/'' \<mapsto> RootHandler, ''/ping'' \<mapsto> PingHandler other r,
                    ''/version'' \<mapsto> VersionHandler other, ''/payload'' \<mapsto> PayloadHandler other,
                    ''/kubecreate'' \<mapsto> KubernetesCreateHandler other CreatePod],
           mux_es = [(''/'', RootHandler)]\<rparr>"
  by (simp add: main_mux_def HandleFunc_def NewServeMux_def)

lemma shouldRedirect_main:
  "main_mux other r CreatePod = Some s \<Longrightarrow> \<not> shouldRedirect s p"
  by (auto simp: main_mux_table shouldRedirect_def snoc_eq_iff_butlast)

lemma serve_lookup:
  assumes "Path req \<noteq> ''*''"
    and "Method req = ''CONNECT'' \<or> cleanPath (Path req) = Path req"
    and "main_mux other r CreatePod = Some s"
  shows "serve other r CreatePod req wld
           = Some (finished (mux_handler s (Path req) NewResponseWriter req wld))"
  using assms shouldRedirect_main [OF assms(3)]
  by (auto simp: serve_def serverHandler_def ServeHTTP_def mux_Handler_def Let_def)

lemma serve_ping:
  "Path req = ''/ping'' \<Longrightarrow>
   serve other r CreatePod req wld = Some (finished (PingHandler other r NewResponseWriter req wld))"
  by (subst serve_lookup [OF _ _ main_mux_table])
     (simp_all add: cleanPath_routes mux_handler_def mux_match_def)

lemma serve_version:
  "Path req = ''/version'' \<Longrightarrow>
   serve other r CreatePod req wld = Some (finished (VersionHandler other NewResponseWriter req wld))"
  by (subst serve_lookup [OF _ _ main_mux_table])
     (simp_all add: cleanPath_routes mux_handler_def mux_match_def)

lemma serve_payload:
  "Path req = ''/payload'' \<Longrightarrow>
   serve other r CreatePod req wld = Some (finished (PayloadHandler other NewResponseWriter req wld))"
  by (subst serve_lookup [OF _ _ main_mux_table])
     (simp_all add: cleanPath_routes mux_handler_def mux_match_def)

lemma serve_kubecreate:
  "Path req = ''/kubecreate'' \<Longrightarrow>
   serve other r CreatePod req wld
     = Some (finished (KubernetesCreateHandler other CreatePod NewResponseWriter req wld))"
  by (subst serve_lookup [OF _ _ main_mux_table])
     (simp_all add: cleanPath_routes mux_handler_def mux_match_def)

lemma serve_subtree:
  assumes "HasPrefix (Path req) ''/''"
    and "Method req = ''CONNECT'' \<or> cleanPath (Path req) = Path req"
    and "Path req \<notin> {''/ping'', ''/version'', ''/payload'', ''/kubecreate''}"
  shows "serve other r CreatePod req wld = Some (finished (RootHandler NewResponseWriter req wld))"
proof -
  have "Path req \<noteq> ''*''"
    using assms(1) by (auto simp: HasPrefix_def)
  then show ?thesis
    using assms
    by (subst serve_lookup [OF _ _ main_mux_table]) (simp_all add: mux_handler_def mux_match_def)
qed




subsection \<open>What each handler answers\<close>

lemma Redirect_served:
  "status (finishRequest (Redirect NewResponseWriter req url code)) = code"
  "header (finishRequest (Redirect NewResponseWriter req url code)) ''Location''
     = Some (hexEscapeNonASCII url)"
  by (simp_all add: Redirect_def Let_def Fprintln_def Write_def WriteHeader_def
      NewResponseWriter_def finishRequest_def)

lemma RootHandler_served:
  "map_option fst (reply (Some (finished (RootHandler NewResponseWriter req wld)))) = Some StatusSeeOther"
  "location (Some (finished (RootHandler NewResponseWriter req wld))) = Some ''/ping''"
  by (simp_all add: RootHandler_def finished_def reply_def location_def Redirect_served
      hexEscapeNonASCII_def)

lemma PingHandler_served:
  "Ping (storage wld) = ((res, None), st) \<Longrightarrow>
   finished (PingHandler other Ping NewResponseWriter req wld)
     = (\<lparr>wroteHeader = True, status = StatusOK, header = Map.empty, body = res @ newline\<rparr>,
        wld\<lparr>storage := st\<rparr>)"
  "Ping (storage wld) = ((res, Some e), st) \<Longrightarrow>
   finished (PingHandler other Ping NewResponseWriter req wld)
     = (\<lparr>wroteHeader = True, status = StatusInternalServerError, header = Map.empty,
         body = Sprintf other e []\<rparr>,
        wld\<lparr>storage := st\<rparr>)"
  by (simp_all add: PingHandler_def finished_def Fprintln_def Fprintf_def Write_def WriteHeader_def
      NewResponseWriter_def finishRequest_def)

lemma VersionHandler_served:
  "finished (VersionHandler other NewResponseWriter req wld)
     = (\<lparr>wroteHeader = True, status = StatusOK, header = Map.empty,
         body = Name @ '' v'' @ Version @ newline\<rparr>, wld)"
  unfolding VersionHandler_def Fprintf_def Version_format
  by (simp add: finished_def Write_def WriteHeader_def NewResponseWriter_def finishRequest_def)

text \<open>Nothing is lost or merged in \<open>header_values\<close>, and each header keeps its order.\<close>

lemma length_header_values: "length (header_values hdr) = sum_list (map (length \<circ> snd) hdr)"
  by (induction hdr) (auto simp: header_values_def)

lemma header_values_of_key:
  "distinct (map fst hdr) \<Longrightarrow> (key, values) \<in> set hdr \<Longrightarrow>
   map snd (filter (\<lambda>kv. fst kv = key) (header_values hdr)) = values"
proof (induction hdr)
  case Nil
  then show ?case by simp
next
  case (Cons entry hdr)
  have other: "filter (\<lambda>kv. fst kv = key) (map (Pair k) vs) = []" if "k \<noteq> key" for k and vs :: "string list"
    using that by (induction vs) auto
  have same: "filter (\<lambda>kv. fst kv = key) (map (Pair key) vs) = map (Pair key) vs"
    for vs :: "string list"
    by (induction vs) auto
  have absent: "filter (\<lambda>kv. fst kv = key) (header_values h) = []" if "key \<notin> fst ` set h" for h
    using that by (induction h) (auto simp: header_values_def other)
  show ?case
  proof (cases "entry = (key, values)")
    case True
    with Cons.prems(1) have "key \<notin> fst ` set hdr" by simp
    then show ?thesis
      using True absent [of hdr] by (simp add: header_values_def same comp_def)
  next
    case False
    with Cons.prems have mem: "(key, values) \<in> set hdr" and "fst entry \<noteq> key"
      by (auto simp: image_iff)
    then show ?thesis
      using Cons.IH Cons.prems(1) other [of "fst entry" "snd entry"]
      by (cases entry) (simp add: header_values_def)
  qed
qed

text \<open>The two loops write one line per value and change nothing else.\<close>

lemma range_values_out:
  "wroteHeader resp \<Longrightarrow>
   range_values other key values resp wld =
     (resp\<lparr>body := body resp @ concat (map (\<lambda>v. header_line (key, v)) values)\<rparr>,
      wld\<lparr>logged := logged wld @ map (\<lambda>v. header_line (key, v)) values\<rparr>)"
proof (induction "values" arbitrary: resp wld)
  case Nil
  then show ?case by simp
next
  case (Cons val "values")
  have step: "Fprintf other resp (''%s: %s'' @ newline) [key, val]
      = resp\<lparr>body := body resp @ header_line (key, val)\<rparr>"
    using Cons.prems unfolding Fprintf_def header_line_format by (simp add: Write_def)
  have logs: "log_Printf other (''%s: %s'' @ newline) [key, val] wld
      = wld\<lparr>logged := logged wld @ [header_line (key, val)]\<rparr>"
    unfolding log_Printf_def header_line_format by simp
  show ?case
    unfolding range_values.simps step logs Let_def
    using Cons.prems by (simp add: Cons.IH)
qed

lemma range_Header_out:
  "wroteHeader resp \<Longrightarrow>
   range_Header other hdr resp wld =
     (resp\<lparr>body := body resp @ concat (map header_line (header_values hdr))\<rparr>,
      wld\<lparr>logged := logged wld @ map header_line (header_values hdr)\<rparr>)"
proof (induction hdr arbitrary: resp wld)
  case Nil
  then show ?case by (simp add: header_values_def)
next
  case (Cons entry hdr)
  obtain key "values" where entry: "entry = (key, values)" by (cases entry)
  show ?case
    using Cons.prems
    by (simp add: entry range_values_out Cons.IH header_values_def comp_def)
qed

lemma PayloadHandler_served:
  "Body req = (payload, None) \<Longrightarrow>
   reply (Some (finished (PayloadHandler other NewResponseWriter req wld)))
     = Some (StatusOK,
             ''Method: '' @ Method req @ newline
             @ (if Header req = [] then [] else ''Headers:'' @ newline)
             @ concat (map header_line (header_values (Header req)))
             @ ''Payload: '' @ payload)"
  "Body req = (payload, Some err) \<Longrightarrow>
   reply (Some (finished (PayloadHandler other NewResponseWriter req wld)))
     = Some (StatusInternalServerError, [])"
proof -
  show "reply (Some (finished (PayloadHandler other NewResponseWriter req wld)))
     = Some (StatusOK,
             ''Method: '' @ Method req @ newline
             @ (if Header req = [] then [] else ''Headers:'' @ newline)
             @ concat (map header_line (header_values (Header req)))
             @ ''Payload: '' @ payload)" if rd: "Body req = (payload, None)"
  proof (cases "Header req = []")
    case True
    then show ?thesis
      unfolding PayloadHandler_def rd Fprintf_def log_Printf_def Method_format Payload_format
      by (simp add: reply_def finished_def Write_def WriteHeader_def NewResponseWriter_def
          finishRequest_def header_values_def)
  next
    case False
    then show ?thesis
      unfolding PayloadHandler_def rd Fprintf_def log_Printf_def Method_format Payload_format
      by (simp add: reply_def finished_def Write_def WriteHeader_def NewResponseWriter_def
          finishRequest_def range_Header_out Fprint_def Let_def)
  qed
  show "reply (Some (finished (PayloadHandler other NewResponseWriter req wld)))
     = Some (StatusInternalServerError, [])" if "Body req = (payload, Some err)"
    using that
    by (simp add: PayloadHandler_def reply_def finished_def WriteHeader_def NewResponseWriter_def
        finishRequest_def)
qed

lemma KubernetesCreateHandler_served:
  "Body req = (bs, None) \<Longrightarrow>
   finished (KubernetesCreateHandler other CreatePod NewResponseWriter req wld)
     = (\<lparr>wroteHeader = True, status = StatusOK, header = Map.empty,
         body = ''Pods: '' @ fst (CreatePod (cluster wld))\<rparr>,
        wld\<lparr>cluster := snd (CreatePod (cluster wld))\<rparr>)"
  "Body req = (bs, Some err) \<Longrightarrow>
   reply (Some (finished (KubernetesCreateHandler other CreatePod NewResponseWriter req wld)))
     = Some (StatusInternalServerError, [])"
proof -
  show "finished (KubernetesCreateHandler other CreatePod NewResponseWriter req wld)
     = (\<lparr>wroteHeader = True, status = StatusOK, header = Map.empty,
         body = ''Pods: '' @ fst (CreatePod (cluster wld))\<rparr>,
        wld\<lparr>cluster := snd (CreatePod (cluster wld))\<rparr>)" if rd: "Body req = (bs, None)"
    unfolding KubernetesCreateHandler_def rd Fprintf_def Pods_format
    by (cases "CreatePod (cluster wld)")
       (simp add: finished_def Write_def WriteHeader_def NewResponseWriter_def finishRequest_def)
  show "reply (Some (finished (KubernetesCreateHandler other CreatePod NewResponseWriter req wld)))
     = Some (StatusInternalServerError, [])" if "Body req = (bs, Some err)"
    using that
    by (simp add: KubernetesCreateHandler_def reply_def finished_def WriteHeader_def
        NewResponseWriter_def finishRequest_def)
qed

subsection \<open>Unregistered paths\<close>




subsection \<open>The probe\<close>

text \<open>
  C2. When \<open>Ping\<close> returns a result \<open>res\<close> and no error, a request to \<open>/ping\<close> gets
  status 200 and the body \<open>res\<close> followed by one newline; the result \<open>PONG\<close> gives the
  body \<open>PONG\<close> and a newline.
\<close>

theorem PingHandler_success:
  assumes "Path req = ''/ping''" and "fst (Ping (storage wld)) = (res, None)"
  shows "reply (serve other Ping CreatePod req wld) = Some (StatusOK, res @ newline)"
proof -
  obtain st where "Ping (storage wld) = ((res, None), st)"
    using assms(2) by (cases "Ping (storage wld)") simp
  then show ?thesis
    by (simp add: serve_ping [OF assms(1)] PingHandler_served reply_def)
qed

theorem PingHandler_success_witness:
  "reply (serve sample_format PONG counting_CreatePod (GET ''/ping'') idle)
     = Some (StatusOK, ''PONG'' @ newline)"
  using PingHandler_success
          [where req = "GET ''/ping''" and Ping = PONG and wld = idle and res = "''PONG''"
             and other = sample_format and CreatePod = counting_CreatePod]
  by (simp add: GET_def PONG_def)

text \<open>
  C3 says that when \<open>Ping\<close> fails with the message \<open>m\<close>, the body is \<open>m\<close> as it is.
  \<open>PingHandler\<close> hands the message to \<open>Fprintf\<close> as the format, so a percent sign in it
  starts a directive. A message naming an IPv6 zone:
  \<open>dial tcp [fe80::1%eth0]:6379: connect: connection refused\<close> comes out with
  \<open>%!e(MISSING)\<close> in the place of \<open>%e\<close>. The status is 500.
\<close>

theorem PingHandler_error_as_format:
  "reply (serve other zone_refusing CreatePod (GET ''/ping'') wld)
   = Some (StatusInternalServerError,
           ''dial tcp [fe80::1%!e(MISSING)th0]:6379: connect: connection refused'')"
proof -
  have "zone_refusing (storage wld)
      = (([], Some ''dial tcp [fe80::1%eth0]:6379: connect: connection refused''), storage wld)"
    by (simp add: zone_refusing_def)
  then show ?thesis
    by (simp add: serve_ping GET_def PingHandler_served reply_def Sprintf_def directive_syntax_def)
qed

theorem PingHandler_error_as_format_witness:
  "reply (serve sample_format zone_refusing counting_CreatePod (GET ''/ping'') idle)
     = Some (StatusInternalServerError,
             ''dial tcp [fe80::1%!e(MISSING)th0]:6379: connect: connection refused'') \<and>
   ''dial tcp [fe80::1%!e(MISSING)th0]:6379: connect: connection refused''
     \<noteq> ''dial tcp [fe80::1%eth0]:6379: connect: connection refused''"
  using PingHandler_error_as_format [of sample_format counting_CreatePod idle]
  by simp

text \<open>A message without a percent sign is the body as it is.\<close>

lemma PingHandler_error_plain:
  assumes "Path req = ''/ping''" and "fst (Ping (storage wld)) = (res, Some e)"
    and "CHR ''%'' \<notin> set e"
  shows "reply (serve other Ping CreatePod req wld) = Some (StatusInternalServerError, e)"
proof -
  obtain st where "Ping (storage wld) = ((res, Some e), st)"
    using assms(2) by (cases "Ping (storage wld)") simp
  then show ?thesis
    by (simp add: serve_ping [OF assms(1)] PingHandler_served reply_def Sprintf_def
        doPrintf_plain [OF assms(3)])
qed

lemma PingHandler_connection_refused:
  "reply (serve other refusing CreatePod (GET ''/ping'') wld)
   = Some (StatusInternalServerError, ''connection refused'')"
  by (rule PingHandler_error_plain [where res = "[]"]) (simp_all add: GET_def refusing_def)

subsection \<open>The redirect\<close>

text \<open>
  C4. Every request to \<open>/\<close>, whatever its method, headers and body, gets status 303
  with the \<open>Location\<close> \<open>/ping\<close>.
\<close>

theorem RootHandler_see_other:
  assumes "Path req = ''/''"
  shows "map_option fst (reply (serve other Ping CreatePod req wld)) = Some StatusSeeOther \<and>
         location (serve other Ping CreatePod req wld) = Some ''/ping''"
proof -
  have "HasPrefix (Path req) ''/''"
    and "Method req = ''CONNECT'' \<or> cleanPath (Path req) = Path req"
    and "Path req \<notin> {''/ping'', ''/version'', ''/payload'', ''/kubecreate''}"
    using assms by (simp_all add: HasPrefix_def cleanPath_routes)
  then have "serve other Ping CreatePod req wld
      = Some (finished (RootHandler NewResponseWriter req wld))"
    by (rule serve_subtree)
  then show ?thesis
    by (simp add: RootHandler_served)
qed

theorem RootHandler_see_other_witness:
  "map_option fst (reply (serve sample_format PONG counting_CreatePod (POST_hello ''/'') idle))
     = Some StatusSeeOther \<and>
   location (serve sample_format PONG counting_CreatePod (POST_hello ''/'') idle) = Some ''/ping''"
  using RootHandler_see_other [of "POST_hello ''/''" sample_format PONG counting_CreatePod idle]
  by (simp add: POST_hello_def)

subsection \<open>The version\<close>

text \<open>
  C5 says that the body of the answer to \<open>/version\<close> equals the name, \<open> v\<close> and the
  version. The format of \<open>VersionHandler\<close> ends in a newline, so the body is one byte
  longer.
\<close>

theorem VersionHandler_body_counterexample:
  "reply (serve sample_format PONG counting_CreatePod (GET ''/version'') idle)
   \<noteq> Some (StatusOK, Name @ '' v'' @ Version)"
  by (simp add: serve_version GET_def VersionHandler_served reply_def)

text \<open>
  C5, amended. Every request to \<open>/version\<close>, whatever its method, headers and body,
  gets status 200 and the body made of the name, \<open> v\<close>, the version and one newline.
\<close>

theorem VersionHandler_fixed_line:
  assumes "Path req = ''/version''"
  shows "reply (serve other Ping CreatePod req wld)
           = Some (StatusOK, Name @ '' v'' @ Version @ newline)"
  by (simp add: serve_version [OF assms] VersionHandler_served reply_def)

theorem VersionHandler_fixed_line_witness:
  "reply (serve sample_format PONG counting_CreatePod (POST_hello ''/version'') idle)
   = Some (StatusOK, ''divman'' @ [CHR 0x27] @ ''s GoServer v1.0.0'' @ newline)"
  using VersionHandler_fixed_line [of "POST_hello ''/version''" sample_format PONG counting_CreatePod idle]
  by (simp add: POST_hello_def Name_def Version_def)

subsection \<open>The request dump\<close>

text \<open>
  C6. When the body of a request to \<open>/payload\<close> is read to its end, the status is 200
  and the response body is, in this order: the line \<open>Method: \<close> with the method; when
  the request has a header, the heading line \<open>Headers:\<close>; one line \<open>name: value\<close> for
  every value of every header, each header's values all present and in their order;
  and last \<open>Payload: \<close> with the bytes of the request body.
\<close>

theorem PayloadHandler_dump:
  assumes "Path req = ''/payload''" and "Body req = (payload, None)"
  shows "reply (serve other Ping CreatePod req wld) =
           Some (StatusOK,
                 ''Method: '' @ Method req @ newline
                 @ (if Header req = [] then [] else ''Headers:'' @ newline)
                 @ concat (map header_line (header_values (Header req)))
                 @ ''Payload: '' @ payload)"
  unfolding serve_payload [OF assms(1)]
  by (rule PayloadHandler_served(1) [OF assms(2)])

theorem PayloadHandler_dump_witness:
  "reply (serve sample_format PONG counting_CreatePod (POST_hello ''/payload'') idle) =
     Some (StatusOK,
           ''Method: POST'' @ newline @ ''Headers:'' @ newline @ ''X-Test: a'' @ newline
           @ ''X-Test: b'' @ newline @ ''Payload: hello'')"
  using PayloadHandler_dump
          [of "POST_hello ''/payload''" "''hello''" sample_format PONG counting_CreatePod idle]
  by (simp add: POST_hello_def header_values_def header_line_def)

subsection \<open>A body that cannot be read\<close>

text \<open>
  C7. When reading the body of a request to \<open>/payload\<close> or to \<open>/kubecreate\<close> fails,
  the status is 500 and the response body is empty, whatever the error was.
\<close>

theorem read_failure_internal_error:
  assumes "Path req = ''/payload'' \<or> Path req = ''/kubecreate''" and "snd (Body req) = Some err"
  shows "reply (serve other Ping CreatePod req wld) = Some (StatusInternalServerError, [])"
proof -
  obtain bs where rd: "Body req = (bs, Some err)"
    using assms(2) by (cases "Body req") simp
  from assms(1) show ?thesis
  proof
    assume "Path req = ''/payload''"
    then show ?thesis
      by (simp add: serve_payload PayloadHandler_served(2) [OF rd])
  next
    assume "Path req = ''/kubecreate''"
    then show ?thesis
      by (simp add: serve_kubecreate KubernetesCreateHandler_served(2) [OF rd])
  qed
qed

theorem read_failure_internal_error_witness:
  "reply (serve sample_format PONG counting_CreatePod (broken_read ''/payload'') idle)
     = Some (StatusInternalServerError, []) \<and>
   reply (serve sample_format PONG counting_CreatePod (broken_read ''/kubecreate'') idle)
     = Some (StatusInternalServerError, [])"
  using read_failure_internal_error
          [of "broken_read ''/payload''" "''unexpected EOF''" sample_format PONG counting_CreatePod idle]
        read_failure_internal_error
          [of "broken_read ''/kubecreate''" "''unexpected EOF''" sample_format PONG counting_CreatePod idle]
  by (simp add: broken_read_def)

subsection \<open>The pod trigger\<close>

text \<open>
  C8. When the body of a request to \<open>/kubecreate\<close> is read to its end, \<open>CreatePod\<close> is
  run once (the cluster is in the state one call leaves it in), the status is 200 and
  the body is \<open>Pods: \<close> with the text \<open>CreatePod\<close> returned. The handler has no other
  branch: whatever the text says, success or failure, the response is built the same
  way.
\<close>

theorem KubernetesCreateHandler_once:
  assumes "Path req = ''/kubecreate''" and "snd (Body req) = None"
  shows "reply (serve other Ping CreatePod req wld)
           = Some (StatusOK, ''Pods: '' @ fst (CreatePod (cluster wld))) \<and>
         map_option snd (serve other Ping CreatePod req wld)
           = Some (wld\<lparr>cluster := snd (CreatePod (cluster wld))\<rparr>)"
proof -
  obtain bs where rd: "Body req = (bs, None)"
    using assms(2) by (cases "Body req") simp
  show ?thesis
    by (simp add: serve_kubecreate [OF assms(1)] KubernetesCreateHandler_served(1) [OF rd] reply_def)
qed

theorem KubernetesCreateHandler_once_witness:
  "reply (serve sample_format PONG counting_CreatePod (POST_hello ''/kubecreate'') idle)
     = Some (StatusOK, ''Pods: created'') \<and>
   map_option snd (serve sample_format PONG counting_CreatePod (POST_hello ''/kubecreate'') idle)
     = Some (idle\<lparr>cluster := 1\<rparr>)"
  using KubernetesCreateHandler_once
          [of "POST_hello ''/kubecreate''" sample_format PONG counting_CreatePod idle]
  by (simp add: POST_hello_def counting_CreatePod_def idle_def)

subsection \<open>Repeated requests\<close>

text \<open>
  C9. Two equal requests to \<open>/version\<close> both get a response, and the same one, status,
  headers and body, whatever happened in between; so do two equal requests to \<open>/ping\<close>
  when \<open>Ping\<close> returns the same pair both times, whether the pair is a result or an
  error, and whatever the error message is.
\<close>

theorem repeated_version_ping:
  "(Path req = ''/version'' \<longrightarrow>
      map_option fst (serve other Ping CreatePod req wld1)
        = map_option fst (serve other Ping CreatePod req wld2)
      \<and> serve other Ping CreatePod req wld1 \<noteq> None) \<and>
   (Path req = ''/ping'' \<and> fst (Ping (storage wld1)) = fst (Ping (storage wld2)) \<longrightarrow>
      map_option fst (serve other Ping CreatePod req wld1)
        = map_option fst (serve other Ping CreatePod req wld2)
      \<and> serve other Ping CreatePod req wld1 \<noteq> None
      \<and> serve other Ping CreatePod req wld2 \<noteq> None)"
proof (intro conjI impI)
  assume "Path req = ''/version''"
  then show "map_option fst (serve other Ping CreatePod req wld1)
      = map_option fst (serve other Ping CreatePod req wld2)"
    by (simp add: serve_version VersionHandler_served)
next
  assume "Path req = ''/version''"
  then show "serve other Ping CreatePod req wld1 \<noteq> None"
    by (simp add: serve_version)
next
  assume a: "Path req = ''/ping'' \<and> fst (Ping (storage wld1)) = fst (Ping (storage wld2))"
  obtain res err st1 st2
    where "Ping (storage wld1) = ((res, err), st1)" "Ping (storage wld2) = ((res, err), st2)"
    using a by (cases "Ping (storage wld1)"; cases "Ping (storage wld2)") auto
  then show "map_option fst (serve other Ping CreatePod req wld1)
      = map_option fst (serve other Ping CreatePod req wld2)"
    using a by (cases err) (simp_all add: serve_ping PingHandler_served)
next
  assume "Path req = ''/ping'' \<and> fst (Ping (storage wld1)) = fst (Ping (storage wld2))"
  then show "serve other Ping CreatePod req wld1 \<noteq> None"
    by (simp add: serve_ping)
next
  assume "Path req = ''/ping'' \<and> fst (Ping (storage wld1)) = fst (Ping (storage wld2))"
  then show "serve other Ping CreatePod req wld2 \<noteq> None"
    by (simp add: serve_ping)
qed

theorem repeated_version_ping_witness:
  "map_option fst (serve sample_format PONG counting_CreatePod (GET ''/version'') idle)
     = map_option fst (serve sample_format PONG counting_CreatePod (GET ''/version'') (idle\<lparr>cluster := 7\<rparr>)) \<and>
   serve sample_format PONG counting_CreatePod (GET ''/version'') idle \<noteq> None \<and>
   map_option fst (serve sample_format PONG counting_CreatePod (GET ''/ping'') idle)
     = map_option fst (serve sample_format PONG counting_CreatePod (GET ''/ping'') (idle\<lparr>cluster := 7\<rparr>)) \<and>
   serve sample_format PONG counting_CreatePod (GET ''/ping'') idle \<noteq> None \<and>
   map_option fst (serve sample_format half_done counting_CreatePod (GET ''/ping'') idle)
     = map_option fst (serve sample_format half_done counting_CreatePod (GET ''/ping'') (idle\<lparr>cluster := 7\<rparr>)) \<and>
   reply (serve sample_format half_done counting_CreatePod (GET ''/ping'') idle)
     = Some (StatusInternalServerError, ''50%!d(MISSING)one'')"
  using repeated_version_ping
          [of "GET ''/version''" sample_format PONG counting_CreatePod idle "idle\<lparr>cluster := 7\<rparr>"]
        repeated_version_ping
          [of "GET ''/ping''" sample_format PONG counting_CreatePod idle "idle\<lparr>cluster := 7\<rparr>"]
        repeated_version_ping
          [of "GET ''/ping''" sample_format half_done counting_CreatePod idle "idle\<lparr>cluster := 7\<rparr>"]
  by (simp add: GET_def)
     (simp add: serve_ping half_done_def PingHandler_served reply_def Sprintf_def
        directive_syntax_def sample_format_def)

subsection \<open>EnvOrDefault\<close>

text \<open>
  C10. For every variable name and fallback, \<open>EnvOrDefault\<close> returns the fallback when
  the variable is unset and also when it is set to the empty string, and it returns the
  variable's value when (and only when) that value is not empty.
\<close>

theorem EnvOrDefault_fallback_or_value:
  "(environ env = None \<longrightarrow> EnvOrDefault environ env fallback = fallback) \<and>
   (environ env = Some [] \<longrightarrow> EnvOrDefault environ env fallback = fallback) \<and>
   (\<forall>v. environ env = Some v \<and> v \<noteq> [] \<longrightarrow> EnvOrDefault environ env fallback = v)"
  by (simp add: EnvOrDefault_def Getenv_def)

theorem EnvOrDefault_fallback_or_value_witness:
  "EnvOrDefault Map.empty ''SIMPLE_WEBSERVER_LISTEN'' '':8082'' = '':8082'' \<and>
   EnvOrDefault [''SIMPLE_WEBSERVER_LISTEN'' \<mapsto> []] ''SIMPLE_WEBSERVER_LISTEN'' '':8082'' = '':8082'' \<and>
   EnvOrDefault [''SIMPLE_WEBSERVER_LISTEN'' \<mapsto> '':9090''] ''SIMPLE_WEBSERVER_LISTEN'' '':8082'' = '':9090''"
  using EnvOrDefault_fallback_or_value [of Map.empty "''SIMPLE_WEBSERVER_LISTEN''" "'':8082''"]
        EnvOrDefault_fallback_or_value [of "[''SIMPLE_WEBSERVER_LISTEN'' \<mapsto> []]" "''SIMPLE_WEBSERVER_LISTEN''" "'':8082''"]
        EnvOrDefault_fallback_or_value [of "[''SIMPLE_WEBSERVER_LISTEN'' \<mapsto> '':9090'']" "''SIMPLE_WEBSERVER_LISTEN''" "'':8082''"]
  by simp

end
